theory Spec2Isabelle
  imports Complex_Main "HOL-Library.Sublist"
begin

section \<open>Configuration\<close>

text \<open>
  The module-level constants of \<^verbatim>\<open>wildfire_dnbr.py\<close> (lines 11 to 17). \<open>BBOX\<close> is a
  Python list of floats, read by index. A Python float is modelled by the real number it
  denotes; the two divisions of the area round their quotient to the nearest double, as
  defined with them below.
\<close>

record config =
  EE_PROJECT :: string
  REGION_NAME :: string
  BBOX :: "real list"
  PRE_FIRE_START :: string
  PRE_FIRE_DATE :: string
  POST_FIRE_START :: string
  POST_FIRE_DATE :: string

definition configuration :: config where
  "configuration =
     \<lparr>EE_PROJECT = ''user-project-id'',
      REGION_NAME = ''Camarillo'',
      BBOX = [-119.1, 34.2, -118.9, 34.4],
      PRE_FIRE_START = ''2024-10-01'',
      PRE_FIRE_DATE = ''2024-11-06'',
      POST_FIRE_START = ''2024-12-01'',
      POST_FIRE_DATE = ''2024-12-31''\<rparr>"

section \<open>Images of the geospatial service\<close>

text \<open>
  The script never holds pixel values: it builds image expressions that the remote
  service evaluates pixel by pixel. A single-band image is modelled as a partial map from
  pixels to values, \<open>None\<close> being a masked pixel (no data); an image with several bands maps
  each band name to such a raster. The operations below are the ones the script calls,
  with the per-pixel meaning the service gives them: a binary operation is masked where
  either input is, a comparison yields 1 or 0, \<open>where\<close> replaces the input's value at the
  pixels whose test is non-zero, and division by zero yields 0.
\<close>

type_synonym 'p raster = "'p \<Rightarrow> real option"
type_synonym 'p image = "string \<Rightarrow> 'p raster"

definition img_binary :: "(real \<Rightarrow> real \<Rightarrow> real) \<Rightarrow> 'p raster \<Rightarrow> 'p raster \<Rightarrow> 'p raster" where
  "img_binary f a b =
     (\<lambda>p. case a p of None \<Rightarrow> None
          | Some x \<Rightarrow> (case b p of None \<Rightarrow> None | Some y \<Rightarrow> Some (f x y)))"

definition img_subtract :: "'p raster \<Rightarrow> 'p raster \<Rightarrow> 'p raster" where
  "img_subtract a b = img_binary (\<lambda>x y. x - y) a b"

definition img_add :: "'p raster \<Rightarrow> 'p raster \<Rightarrow> 'p raster" where
  "img_add a b = img_binary (\<lambda>x y. x + y) a b"

definition img_divide :: "'p raster \<Rightarrow> 'p raster \<Rightarrow> 'p raster" where
  "img_divide a b = img_binary (\<lambda>x y. if y = 0 then 0 else x / y) a b"

definition img_And :: "'p raster \<Rightarrow> 'p raster \<Rightarrow> 'p raster" where
  "img_And a b = img_binary (\<lambda>x y. if x = 0 then 0 else if y = 0 then 0 else 1) a b"

definition img_lt :: "'p raster \<Rightarrow> real \<Rightarrow> 'p raster" where
  "img_lt a c = (\<lambda>p. map_option (\<lambda>x. if x < c then 1 else 0) (a p))"

definition img_gt :: "'p raster \<Rightarrow> real \<Rightarrow> 'p raster" where
  "img_gt a c = (\<lambda>p. map_option (\<lambda>x. if c < x then 1 else 0) (a p))"

definition img_multiply :: "'p raster \<Rightarrow> real \<Rightarrow> 'p raster" where
  "img_multiply a c = (\<lambda>p. map_option (\<lambda>x. x * c) (a p))"

definition img_where :: "'p raster \<Rightarrow> 'p raster \<Rightarrow> real \<Rightarrow> 'p raster" where
  "img_where input test v =
     (\<lambda>p. case input p of None \<Rightarrow> None
          | Some x \<Rightarrow> (case test p of None \<Rightarrow> Some x
                       | Some t \<Rightarrow> Some (if t = 0 then x else v)))"

definition img_select :: "'p image \<Rightarrow> string \<Rightarrow> 'p raster" where
  "img_select im band = im band"

definition img_clip :: "'p image \<Rightarrow> ('p \<Rightarrow> bool) \<Rightarrow> 'p image" where
  "img_clip im region = (\<lambda>band p. if region p then im band p else None)"

text \<open>
  The median reducer: the middle value of the sorted samples, the mean of the two middle
  values when their number is even. A pixel of the composite is masked when no image of
  the collection has data there, so the median is only taken of a non-empty list.
\<close>

fun present :: "'a option list \<Rightarrow> 'a list" where
  "present [] = []"
| "present (None # xs) = present xs"
| "present (Some v # xs) = v # present xs"

definition samples :: "'p image list \<Rightarrow> string \<Rightarrow> 'p \<Rightarrow> real list" where
  "samples images band p = present (map (\<lambda>im. im band p) images)"

definition median :: "real list \<Rightarrow> real" where
  "median xs =
     (let s = sort xs; n = length s
      in if even n then (s ! (n div 2 - 1) + s ! (n div 2)) / 2 else s ! (n div 2))"

definition img_median :: "'p image list \<Rightarrow> 'p image" where
  "img_median images =
     (\<lambda>band p. if samples images band p = [] then None
               else Some (median (samples images band p)))"

section \<open>Spectral indices and burn severity\<close>

text \<open>
  Lines 71 to 104. \<open>rename\<close> only relabels the band of a single-band image and is
  omitted. The collections are the ones the service holds after the date, bounds and
  cloud-cover filters of lines 48 to 54.
\<close>

definition composite :: "'p image list \<Rightarrow> ('p \<Rightarrow> bool) \<Rightarrow> 'p image" where
  "composite images region_of_interest = img_clip (img_median images) region_of_interest"

definition nbr :: "'p image \<Rightarrow> 'p raster" where
  "nbr fire_image =
     (let nir = img_select fire_image ''B8''; swir = img_select fire_image ''B12''
      in img_divide (img_subtract nir swir) (img_add nir swir))"

definition dnbr :: "'p raster \<Rightarrow> 'p raster \<Rightarrow> 'p raster" where
  "dnbr prefire_nbr postfire_nbr = img_subtract prefire_nbr postfire_nbr"

definition severity :: "'p raster \<Rightarrow> 'p raster" where
  "severity d =
     img_where
       (img_where
          (img_where
             (img_where (img_multiply (img_lt d 0.05) 0)
                (img_And (img_gt d 0.05) (img_lt d 0.27)) 1)
             (img_And (img_gt d 0.27) (img_lt d 0.439)) 2)
          (img_And (img_gt d 0.439) (img_lt d 0.659)) 3)
       (img_gt d 0.66) 4"

text \<open>The formulas as the specification writes them, on pixel values.\<close>

definition NBR_spec :: "real \<Rightarrow> real \<Rightarrow> real" where
  "NBR_spec NIR SWIR = (NIR - SWIR) / (NIR + SWIR)"

definition dNBR_spec :: "real \<Rightarrow> real \<Rightarrow> real" where
  "dNBR_spec NBR_pre NBR_post = NBR_pre - NBR_post"

section \<open>The script as a state transformer\<close>

text \<open>
  What the script receives from outside: for each call that talks to the service or to the
  file system, whether it raises; the area the service reports for the rectangle; the
  pixels of the rectangle and the two filtered image collections the service holds; the
  formatted clock reading; and Python's formatting of floats (\<^verbatim>\<open>:.2f\<close> and the
  \<open>str\<close> of a list of floats), which is not implemented here.
\<close>

datatype call = Initialize | AreaInfo | PreSizeInfo | PostSizeInfo | MapToHtml | OpenDashboard

record 'p env =
  raises :: "call \<Rightarrow> bool"
  area_sqm :: real
  region_of_interest :: "'p \<Rightarrow> bool"
  prefire_images :: "'p image list"
  postfire_images :: "'p image list"
  now :: string
  format_2f :: "real \<Rightarrow> string"
  str_list :: "real list \<Rightarrow> string"

datatype exception = Raised call | IndexError

datatype status = Running | Finished | Exited | Uncaught exception

record geemap =
  center :: "real \<times> real"
  zoom :: int
  basemap :: "string list"
  layers :: "string list"
  legend :: "string list"

datatype effect = Print string | SaveMap string geemap | WriteFile string string

text \<open>
  The state after each statement: what has been printed and written so far, whether the
  script is still running, and the two objects the claims are about, the \<open>severity\<close> image
  and the \<open>Map\<close>, each \<open>None\<close> until its assignment has run.
\<close>

record 'p state =
  effects :: "effect list"
  status :: status
  severity_image :: "'p raster option"
  Map_object :: "geemap option"

definition prints :: "string list \<Rightarrow> 'p state \<Rightarrow> 'p state" where
  "prints lines s = s\<lparr>effects := effects s @ map Print lines\<rparr>"

definition raise :: "exception \<Rightarrow> 'p state \<Rightarrow> 'p state" where
  "raise e s = s\<lparr>status := Uncaught e\<rparr>"

definition rule50 :: string where
  "rule50 = replicate 50 (CHR ''='')"

fun digits :: "nat \<Rightarrow> string" where
  "digits n =
     (if n < 10 then [''0123456789'' ! n]
      else digits (n div 10) @ [''0123456789'' ! (n mod 10)])"

declare digits.simps [simp del]

definition str_int :: "int \<Rightarrow> string" where
  "str_int i = (if i < 0 then CHR ''-'' # digits (nat (- i)) else digits (nat i))"

subsection \<open>Lines 19 to 39: banner, connection, area\<close>

definition study_area :: "config \<Rightarrow> 'p env \<Rightarrow> 'p state \<Rightarrow> 'p state" where
  "study_area cfg env s =
     prints
       [''\<newline>Study Area: '' @ REGION_NAME cfg,
        ''Coordinates: '' @ str_list env (BBOX cfg),
        ''Date Range: '' @ PRE_FIRE_DATE cfg @ '' to '' @ POST_FIRE_DATE cfg] s"

definition connect :: "'p env \<Rightarrow> 'p state \<Rightarrow> 'p state" where
  "connect env s =
     (if raises env Initialize
      then prints [''Google Earth Engine connection failed'',
                   ''Run: earthengine authenticate''] s
      else prints [''Google Earth Engine connected Successfully''] s)"

text \<open>
  Lines 36 and 37 divide Python floats, which are IEEE 754 doubles: the result is the exact
  quotient rounded to the nearest double, ties to the even significand. A double has a
  significand of 53 bits; \<open>exponent\<close> is the binary exponent of a positive number, not
  below -1022 (the subnormal range), and \<open>ulp\<close> the spacing of the doubles at that
  exponent; \<open>up\<close> counts the halvings of a number down to below 2, \<open>down\<close> the doublings
  of a number up to 1. Results beyond the range of doubles are not modelled: the quotients
  of the script are smaller in magnitude than the area itself, and its two divisors are
  constants other than zero.
\<close>

function up :: "real \<Rightarrow> int" where
  "up x = (if 2 \<le> x then up (x / 2) + 1 else 0)"
  by pat_completeness auto
termination
proof (relation "measure (\<lambda>x. nat \<lfloor>x\<rfloor>)")
  show "wf (measure (\<lambda>x::real. nat \<lfloor>x\<rfloor>))"
    by simp
next
  fix x :: real
  assume "2 \<le> x"
  then have "\<lfloor>x / 2\<rfloor> < \<lfloor>x\<rfloor>" "0 < \<lfloor>x\<rfloor>"
    by linarith+
  then show "(x / 2, x) \<in> measure (\<lambda>x. nat \<lfloor>x\<rfloor>)"
    by simp
qed

function down :: "real \<Rightarrow> int \<Rightarrow> int" where
  "down x e = (if x < 1 \<and> -1022 < e then down (2 * x) (e - 1) else e)"
  by pat_completeness auto
termination
  by (relation "measure (\<lambda>(x, e). nat (e + 1022))") auto

declare up.simps [simp del] down.simps [simp del]

definition exponent :: "real \<Rightarrow> int" where
  "exponent x = (if 1 \<le> x then up x else down x 0)"

definition pow2 :: "int \<Rightarrow> real" where
  "pow2 e = (if 0 \<le> e then 2 ^ nat e else 1 / 2 ^ nat (- e))"

definition ulp :: "real \<Rightarrow> real" where
  "ulp x = pow2 (exponent \<bar>x\<bar> - 52)"

definition round_half_even :: "real \<Rightarrow> int" where
  "round_half_even m =
     (if m - of_int \<lfloor>m\<rfloor> < 1 / 2 then \<lfloor>m\<rfloor>
      else if 1 / 2 < m - of_int \<lfloor>m\<rfloor> then \<lfloor>m\<rfloor> + 1
      else if even \<lfloor>m\<rfloor> then \<lfloor>m\<rfloor> else \<lfloor>m\<rfloor> + 1)"

definition round_double :: "real \<Rightarrow> real" where
  "round_double x =
     (if x < 0 then - (of_int (round_half_even (- x / ulp x)) * ulp x)
      else of_int (round_half_even (x / ulp x)) * ulp x)"

definition float_div :: "real \<Rightarrow> real \<Rightarrow> real" where
  "float_div x y = round_double (x / y)"

definition float_mul :: "real \<Rightarrow> real \<Rightarrow> real" where
  "float_mul x y = round_double (x * y)"

definition area_sqkm :: "'p env \<Rightarrow> real" where
  "area_sqkm env = float_div (area_sqm env) 1000000"

definition area_ha :: "'p env \<Rightarrow> real" where
  "area_ha env = float_div (area_sqm env) 10000"

definition calculate_area :: "'p env \<Rightarrow> 'p state \<Rightarrow> 'p state" where
  "calculate_area env s =
     (if raises env AreaInfo then raise (Raised AreaInfo) s
      else prints
             [''Area: '' @ format_2f env (area_sqkm env) @ '' km'' @ [CHR 0xC2, CHR 0xB2],
              ''Area: '' @ format_2f env (area_ha env) @ '' ha''] s)"

subsection \<open>Lines 44 to 68: the two collections and their sizes\<close>

definition pre_count :: "'p env \<Rightarrow> int" where
  "pre_count env = int (length (prefire_images env))"

definition post_count :: "'p env \<Rightarrow> int" where
  "post_count env = int (length (postfire_images env))"

definition load_sentinel :: "'p state \<Rightarrow> 'p state" where
  "load_sentinel s = prints [''\<newline>'' @ rule50, ''Loading Sentinel-2 Data'', rule50] s"

definition count_images :: "'p env \<Rightarrow> 'p state \<Rightarrow> 'p state" where
  "count_images env s =
     (if raises env PreSizeInfo then raise (Raised PreSizeInfo) s
      else if raises env PostSizeInfo then raise (Raised PostSizeInfo) s
      else prints
             [''\<newline>Found '' @ str_int (pre_count env) @ '', '' @ str_int (post_count env)
                @ '' Sentinel-2 images''] s)"

definition no_images_hints :: "string list" where
  "no_images_hints =
     ['' No images found! Try:'',
      ''  1. Expanding date range'',
      ''  2. Increasing cloud cover threshold'',
      ''  3. Checking coordinates'']"

definition check_images :: "'p env \<Rightarrow> 'p state \<Rightarrow> 'p state" where
  "check_images env s =
     (if pre_count env = 0 \<or> post_count env = 0
      then (prints no_images_hints s)\<lparr>status := Exited\<rparr>
      else s)"

subsection \<open>Lines 71 to 104: composites, indices, classification\<close>

definition pre_fire_image :: "'p env \<Rightarrow> 'p image" where
  "pre_fire_image env = composite (prefire_images env) (region_of_interest env)"

definition post_fire_image :: "'p env \<Rightarrow> 'p image" where
  "post_fire_image env = composite (postfire_images env) (region_of_interest env)"

definition prefire_nbr :: "'p env \<Rightarrow> 'p raster" where
  "prefire_nbr env = nbr (pre_fire_image env)"

definition postfire_nbr :: "'p env \<Rightarrow> 'p raster" where
  "postfire_nbr env = nbr (post_fire_image env)"

definition DNBR :: "'p env \<Rightarrow> 'p raster" where
  "DNBR env = dnbr (prefire_nbr env) (postfire_nbr env)"

definition calculate_indices :: "'p env \<Rightarrow> 'p state \<Rightarrow> 'p state" where
  "calculate_indices env s =
     (prints
        [[CHR 0xE2, CHR 0x9C, CHR 0x85]
           @ '' Created cloud-free composite image for pre-fire images)'',
         ''\<newline>'' @ rule50,
         ''STEP 2: Calculating Spectral Indices'',
         rule50,
         [CHR 0xE2, CHR 0x9C, CHR 0x93] @ '' NBR calculated''] s)
     \<lparr>severity_image := Some (severity (DNBR env))\<rparr>"

subsection \<open>Lines 119 to 157: the interactive map\<close>

definition center_lat :: "config \<Rightarrow> real" where
  "center_lat cfg = (BBOX cfg ! 1 + BBOX cfg ! 3) / 2"

definition center_lon :: "config \<Rightarrow> real" where
  "center_lon cfg = (BBOX cfg ! 0 + BBOX cfg ! 2) / 2"

definition map_path :: "config \<Rightarrow> string" where
  "map_path cfg = ''./outputs/map_'' @ REGION_NAME cfg @ ''.html''"

definition new_Map :: "config \<Rightarrow> geemap" where
  "new_Map cfg =
     \<lparr>center = (center_lat cfg, center_lon cfg), zoom = 10,
      basemap = [''HYBRID''],
      layers = [''PREFIRE_NBR'', ''POSTFIRE_NBR'', ''DNBR'', ''SEVERITY''],
      legend = [''Burn Severity (dNBR)'']\<rparr>"

text \<open>
  \<open>BBOX[1]\<close> and \<open>BBOX[3]\<close> raise \<open>IndexError\<close> on a list shorter than four. The map is
  shown with its basemap, layers and legend; the visualisation dictionaries are not
  modelled. \<open>Map.to_html\<close> writes the file of the map, or raises.
\<close>

definition interactive_map :: "config \<Rightarrow> 'p env \<Rightarrow> 'p state \<Rightarrow> 'p state" where
  "interactive_map cfg env s =
     (let s1 = prints [''\<newline>'' @ rule50, ''STEP 4: Creating Interactive Map'', rule50] s
      in if length (BBOX cfg) < 4 then raise IndexError s1
         else let s2 = s1\<lparr>Map_object := Some (new_Map cfg)\<rparr>
              in if raises env MapToHtml then raise (Raised MapToHtml) s2
                 else prints [''Interactive map saved: '' @ map_path cfg]
                        (s2\<lparr>effects := effects s2 @ [SaveMap (map_path cfg) (new_Map cfg)]\<rparr>))"

subsection \<open>Lines 161 to 387: the dashboard\<close>

text \<open>
  The template of lines 166 to 380, cut at its placeholders. The blocks of whole lines
  between two placeholders are \<open>html_1\<close> to \<open>html_8\<close>; the doubled braces of the f-string
  are single braces, and the characters outside ASCII are their UTF-8 bytes.
\<close>

definition html_1 :: string where
  \<open>html_1 = concat
     [''\<newline>'',
      ''<!DOCTYPE html>\<newline>'',
      ''<html lang="en">\<newline>'',
      ''<head>\<newline>'',
      ''    <meta charset="UTF-8">\<newline>'',
      ''    <meta name="viewport" content="width=device-width, initial-scale=1.0">\<newline>'']\<close>

definition html_2 :: string where
  \<open>html_2 = concat
     [''    <style>\<newline>'',
      ''        \<newline>'',
      ''        *{\<newline>'',
      ''            box-sizing: border-box;\<newline>'',
      ''            font-family: Arial, sans-serif;\<newline>'',
      ''            \<newline>'',
      ''        }\<newline>'',
      ''        \<newline>'',
      ''        body {\<newline>'',
      ''            background-color: #f5f5f5;\<newline>'',
      ''            padding: 0;\<newline>'',
      ''            margin: 0;\<newline>'',
      ''            \<newline>'',
      ''            width: 100%;\<newline>'',
      ''            height: 95vh;\<newline>'',
      ''            overflow: hidden;\<newline>'',
      ''        }\<newline>'',
      ''        \<newline>'',
      ''        .main-container {\<newline>'',
      ''            display: flex;\<newline>'',
      ''            flex-direction: row;\<newline>'',
      ''            height: 95vh;\<newline>'',
      ''            padding: 10px;\<newline>'',
      ''        }\<newline>'',
      ''        \<newline>'',
      ''        .side-bar {\<newline>'',
      ''            width: 300px;\<newline>'',
      ''            height: calc(98vh - 20px);\<newline>'',
      ''            background-color: blanchedalmond;\<newline>'',
      ''            padding: 20px;\<newline>'',
      ''            margin: 10px;\<newline>'',
      ''            border-radius: 10px;\<newline>'',
      ''            box-shadow: 0 4px 6px rgba(0,0,0,0.1);\<newline>'',
      ''            overflow-y: auto;\<newline>'',
      ''            text-align: justify;\<newline>'',
      ''            \<newline>'',
      ''        }\<newline>'',
      ''        \<newline>'',
      ''        .main-content {\<newline>'',
      ''            width: calc(100% - 340px);\<newline>'',
      ''            height: calc(98vh - 20px);\<newline>'',
      ''            background-color: beige;\<newline>'',
      ''            padding: 20px;\<newline>'',
      ''            margin: 10px;\<newline>'',
      ''            border-radius: 10px;\<newline>'',
      ''            box-shadow: 0 4px 6px rgba(0,0,0,0.1);\<newline>'',
      ''            display: flex;\<newline>'',
      ''            flex-direction: column;\<newline>'',
      ''        }\<newline>'',
      ''        \<newline>'',
      ''        .header {\<newline>'',
      ''            width: 100%;\<newline>'',
      ''            background-color: burlywood;\<newline>'',
      ''            padding: 20px;\<newline>'',
      ''            border-radius: 10px;\<newline>'',
      ''            margin-bottom: 20px;\<newline>'',
      ''            box-shadow: 0 4px 6px rgba(0,0,0,0.1);\<newline>'',
      ''            text-align: center;\<newline>'',
      ''        }   \<newline>'',
      ''        \<newline>'',
      ''        .header .dashboard-title {\<newline>'',
      ''            font-family: 'Segoe UI', Tahoma, Geneva, Verdana, sans-serif;\<newline>'',
      ''            font-size: 22px;\<newline>'',
      ''            font-weight: bold;\<newline>'',
      ''            font-style: italic;\<newline>'',
      ''            margin-bottom: 10px;\<newline>'',
      ''            color: #333;\<newline>'',
      ''        }\<newline>'',
      ''        \<newline>'',
      ''        .content {\<newline>'',
      ''            display: flex;\<newline>'',
      ''            flex-direction: column;\<newline>'',
      ''            gap: 20px;\<newline>'',
      ''        }\<newline>'',
      ''        \<newline>'',
      ''        .container {\<newline>'',
      ''            background-color: rgba(255, 255, 255, 0.8);\<newline>'',
      ''            padding: 15px;\<newline>'',
      ''            border-radius: 8px;\<newline>'',
      ''            \<newline>'',
      ''            font-size: 12px;\<newline>'',
      ''            color: #333;\<newline>'',
      ''        }\<newline>'',
      ''        \<newline>'',
      ''        .info-box {\<newline>'',
      ''            background-color: rgba(255, 255, 255, 0.8);\<newline>'',
      ''            padding: 15px;\<newline>'',
      ''            border-radius: 8px;\<newline>'',
      ''            box-shadow: 0 2px 4px rgba(0,0,0,0.1);\<newline>'',
      ''        }\<newline>'',
      ''        \<newline>'',
      ''        .info-box h3 {\<newline>'',
      ''            color: #8B4513;\<newline>'',
      ''            margin-top: 0;\<newline>'',
      ''            margin-bottom: 10px;\<newline>'',
      ''            font-size: 18px;\<newline>'',
      ''        }\<newline>'',
      ''        \<newline>'',
      ''        .info-box p {\<newline>'',
      ''            margin: 8px 0;\<newline>'',
      ''            line-height: 1.5;\<newline>'',
      ''            color: #333;\<newline>'',
      ''        }\<newline>'',
      ''        \<newline>'',
      ''        .footer {\<newline>'',
      ''            background-color: rgba(255, 255, 255, 0.8);\<newline>'',
      ''            padding: 15px;\<newline>'',
      ''            border-radius: 8px;\<newline>'',
      ''            font-size: 12px;\<newline>'',
      ''            color: #666;\<newline>'',
      ''            text-align: center;\<newline>'',
      ''            margin-top: 10px;\<newline>'',
      ''        }\<newline>'',
      ''        \<newline>'',
      ''        .footer p {\<newline>'',
      ''            margin: 5px 0;\<newline>'',
      ''        }\<newline>'',
      ''        \<newline>'',
      ''        .map {\<newline>'',
      ''            width: 100%;\<newline>'',
      ''            height: 100%;\<newline>'',
      ''            border-radius: 8px;\<newline>'',
      ''            overflow: hidden;\<newline>'',
      ''        }\<newline>'',
      ''        \<newline>'',
      ''        iframe {\<newline>'',
      ''            width: 100%;\<newline>'',
      ''            height: 100%;\<newline>'',
      ''            border: none;\<newline>'',
      ''            display: block;\<newline>'',
      ''        }\<newline>'',
      ''        \<newline>'',
      ''        /* Custom scrollbar */\<newline>'',
      ''        .side-bar::-webkit-scrollbar {\<newline>'',
      ''            width: 8px;\<newline>'',
      ''        }\<newline>'',
      ''        \<newline>'',
      ''        .side-bar::-webkit-scrollbar-track {\<newline>'',
      ''            background: rgba(255, 255, 255, 0.3);\<newline>'',
      ''            border-radius: 10px;\<newline>'',
      ''        }\<newline>'',
      ''        \<newline>'',
      ''        .side-bar::-webkit-scrollbar-thumb {\<newline>'',
      ''            background: rgba(139, 69, 19, 0.5);\<newline>'',
      ''            border-radius: 10px;\<newline>'',
      ''        }\<newline>'',
      ''        \<newline>'',
      ''        .side-bar::-webkit-scrollbar-thumb:hover {\<newline>'',
      ''            background: rgba(139, 69, 19, 0.7);\<newline>'',
      ''        }\<newline>'',
      ''    </style>\<newline>'',
      ''</head>\<newline>'',
      ''<body>\<newline>'',
      ''    <div class="main-container">\<newline>'',
      ''        <div class="side-bar">\<newline>'',
      ''            <div class="header">\<newline>'',
      (''                <div class="dashboard-title">'' @ [CHR 0xF0, CHR 0x9F, CHR 0x94, CHR 0xA5] @ '' Wildfire Burn Severity Dashboard</div>\<newline>''),
      ''            </div>\<newline>'',
      ''            <div class="content">\<newline>'',
      ''                <div class="container">\<newline>'']\<close>

definition html_3 :: string where
  \<open>html_3 = concat
     [''                \<newline>'',
      ''                    <h3>Project Overview</h3>\<newline>'',
      ''                    <p>This dashboard displays burn severity analysis using Sentinel-2 satellite imagery. The dNBR (differenced Normalized Burn Ratio) method is used to classify burn severity into five categories.</p>\<newline>'']\<close>

definition html_4 :: string where
  \<open>html_4 = concat
     [''                </div>\<newline>'',
      ''\<newline>'',
      ''                <div class="container">\<newline>'',
      (''                    <h3>'' @ [CHR 0xF0, CHR 0x9F, CHR 0x93, CHR 0x8B] @ '' Data Sources & Methods</h3>\<newline>''),
      ''                    <p><strong>Satellite Data:</strong> Sentinel-2 Level-2A Surface Reflectance</p>\<newline>'',
      ''                    <p><strong>Analysis Method:</strong> dNBR (differenced Normalized Burn Ratio)</p>\<newline>'',
      ''                    <p><strong>Resolution:</strong> 30 meters</p>\<newline>'',
      ''                    <p><strong>Cloud Filter:</strong> &lt; 20% cloud coverage</p>\<newline>'']\<close>

definition html_5 :: string where
  \<open>html_5 = concat
     [''                </div>\<newline>'',
      ''                <div class="footer">\<newline>'',
      ''                    <p>Wildfire Burn Severity Analysis Dashboard | Generated using Google Earth Engine and Python</p>\<newline>'',
      ''                    <p>Data: Copernicus Sentinel-2 | Method: dNBR Classification</p>\<newline>'',
      ''                </div>\<newline>'',
      ''            </div>\<newline>'',
      ''        </div>\<newline>'',
      ''        <div class="main-content">\<newline>'',
      ''            <div class="map">\<newline>'']\<close>

definition html_6 :: string where
  \<open>html_6 = concat
     [''            </div>\<newline>'',
      ''        </div>\<newline>'',
      ''    </div>\<newline>'',
      ''    <script>\<newline>'',
      ''        // Load the map initially\<newline>'']\<close>

definition html_7 :: string where
  \<open>html_7 = concat
     [''        \<newline>'',
      ''        // Function to handle layer switching\<newline>'',
      ''        function showLayer(layerType) {\<newline>'',
      (''            alert('In a full implementation, this would control map layers'' @ [CHR 0x5C] @ ''n'' @ [CHR 0x5C] @ ''nSelected: ' + layerType + ' layer');\<newline>''),
      ''        }\<newline>'',
      ''        \<newline>'',
      ''        // Auto-refresh iframe every 30 seconds to ensure it loads\<newline>'',
      ''        setTimeout(function() {\<newline>'',
      ''            var iframe = document.getElementById('mapFrame');\<newline>'',
      ''            iframe.src = iframe.src;\<newline>'',
      ''        }, 30000);\<newline>'',
      ''        \<newline>'']\<close>

definition html_8 :: string where
  \<open>html_8 = concat
     [''    </script>\<newline>'',
      ''</body>\<newline>'',
      ''</html>\<newline>'']\<close>

definition dashboard_html :: "config \<Rightarrow> 'p env \<Rightarrow> string" where
  \<open>dashboard_html cfg env =
     html_1 @
     ''    <title>Wildfire Dashboard - '' @
     REGION_NAME cfg @
     ''</title>\<newline>'' @
     html_2 @
     ''                    <div style="font-size: 18px; font-weight: bold; margin-bottom: 8px;">Region: '' @
     REGION_NAME cfg @
     ''</div>\<newline>'' @
     ''                    <div>Analysis Period: '' @
     PRE_FIRE_DATE cfg @
     '' to '' @
     POST_FIRE_DATE cfg @
     ''</div>\<newline>'' @
     html_3 @
     ''                    <p><strong>Total Study Area:</strong> '' @
     format_2f env (area_sqkm env) @
     '' km'' @ [CHR 0xC2, CHR 0xB2] @ '' ('' @
     format_2f env (area_ha env) @
     '' hectares)</p>\<newline>'' @
     html_4 @
     ''                    <p><strong>Generated:</strong> '' @
     now env @
     ''</p>\<newline>'' @
     html_5 @
     ''                <iframe id="mapFrame" src="map_'' @
     REGION_NAME cfg @
     ''.html"></iframe>\<newline>'' @
     html_6 @
     ''        document.getElementById('mapFrame').src = 'map_'' @
     REGION_NAME cfg @
     ''.html';\<newline>'' @
     html_7 @
     ''        console.log('Wildfire Dashboard loaded for '' @
     REGION_NAME cfg @
     [CHR 0x27] @ '');\<newline>'' @
     html_8\<close>

definition dashboard_filename :: "config \<Rightarrow> string" where
  "dashboard_filename cfg = ''./outputs/wildfire_dashboard_'' @ REGION_NAME cfg @ ''.html''"

definition html_dashboard :: "config \<Rightarrow> 'p env \<Rightarrow> 'p state \<Rightarrow> 'p state" where
  "html_dashboard cfg env s =
     (let s1 = prints [''\<newline>'' @ rule50,
                       ''STEP 7: Creating Interactive HTML Dashboard'', rule50] s
      in if raises env OpenDashboard then raise (Raised OpenDashboard) s1
         else prints [''Interactive dashboard saved: '' @ dashboard_filename cfg]
                (s1\<lparr>effects := effects s1
                       @ [WriteFile (dashboard_filename cfg) (dashboard_html cfg env)]\<rparr>))"

subsection \<open>The whole script\<close>

definition finish :: "'p state \<Rightarrow> 'p state" where
  "finish s = s\<lparr>status := Finished\<rparr>"

definition script :: "config \<Rightarrow> 'p env \<Rightarrow> ('p state \<Rightarrow> 'p state) list" where
  "script cfg env =
     [study_area cfg env, connect env, calculate_area env, load_sentinel, count_images env,
      check_images env, calculate_indices env, interactive_map cfg env,
      html_dashboard cfg env, finish]"

definition start :: "'p state" where
  "start = \<lparr>effects = [], status = Running, severity_image = None, Map_object = None\<rparr>"

text \<open>A statement runs only while the script has neither exited nor raised.\<close>

definition exec :: "('p state \<Rightarrow> 'p state) list \<Rightarrow> 'p state \<Rightarrow> 'p state" where
  "exec steps s0 = foldl (\<lambda>s step. if status s = Running then step s else s) s0 steps"

definition run :: "config \<Rightarrow> 'p env \<Rightarrow> 'p state" where
  "run cfg env = exec (script cfg env) start"

text \<open>The files a run has written, in order: the paths of its file effects.\<close>

fun file_of :: "effect \<Rightarrow> string option" where
  "file_of (Print line) = None"
| "file_of (SaveMap path m) = Some path"
| "file_of (WriteFile path content) = Some path"

definition written_paths :: "effect list \<Rightarrow> string list" where
  "written_paths es = present (map file_of es)"

section \<open>A sample environment\<close>

text \<open>
  Uniform images over pixels numbered by naturals, the first hundred of which lie in the
  rectangle; every call succeeds. Its areas are whole numbers, which the sample formatter
  prints with two zero decimals. The inputs of the examples below are variations of it.
\<close>

definition scene :: "real \<Rightarrow> real \<Rightarrow> nat image" where
  "scene nir swir =
     (\<lambda>band p. if band = ''B8'' then Some nir
               else if band = ''B12'' then Some swir else None)"

definition sample_env :: "nat env" where
  "sample_env =
     \<lparr>raises = (\<lambda>c. False),
      area_sqm = 407000000,
      region_of_interest = (\<lambda>p. p < 100),
      prefire_images = [scene 3000 1000, scene 3400 1200, scene 2800 1100],
      postfire_images = [scene 1500 2500, scene 1700 2300],
      now = ''2025-01-15 10:30:00'',
      format_2f = (\<lambda>x. digits (nat \<lfloor>x\<rfloor>) @ ''.00''),
      str_list = (\<lambda>xs. ''[-119.1, 34.2, -118.9, 34.4]'')\<rparr>"

section \<open>Proof tools: running a list of statements\<close>

lemma exec_Nil: "exec [] s = s"
  by (simp add: exec_def)

lemma exec_Cons: "exec (f # fs) s = exec fs (if status s = Running then f s else s)"
  by (simp add: exec_def)

lemma exec_append: "exec (fs @ gs) s = exec gs (exec fs s)"
  by (simp add: exec_def)

lemma exec_stopped: "status s \<noteq> Running \<Longrightarrow> exec fs s = s"
  by (induction fs) (simp_all add: exec_Nil exec_Cons)

lemma exec_invariant:
  assumes "P s" and "\<And>f t. f \<in> set fs \<Longrightarrow> P t \<Longrightarrow> P (f t)"
  shows "P (exec fs s)"
  using assms
proof (induction fs arbitrary: s)
  case Nil
  then show ?case by (simp add: exec_Nil)
next
  case (Cons f fs)
  have "P (if status s = Running then f s else s)"
    using Cons.prems by simp
  then show ?case
    unfolding exec_Cons using Cons.prems(2) by (intro Cons.IH) simp_all
qed

lemma present_append: "present (xs @ ys) = present xs @ present ys"
  by (induction xs rule: present.induct) simp_all

lemma written_paths_append: "written_paths (xs @ ys) = written_paths xs @ written_paths ys"
  by (simp add: written_paths_def present_append)

lemma written_paths_Print: "written_paths (Print l # es) = written_paths es"
  by (simp add: written_paths_def)

lemma written_paths_Nil: "written_paths [] = []"
  by (simp add: written_paths_def)

lemma written_paths_SaveMap: "written_paths (SaveMap p m # es) = p # written_paths es"
  by (simp add: written_paths_def)

lemma written_paths_WriteFile: "written_paths (WriteFile p c # es) = p # written_paths es"
  by (simp add: written_paths_def)

lemma written_paths_mem:
  "e \<in> set es \<Longrightarrow> file_of e = Some p \<Longrightarrow> p \<in> set (written_paths es)"
proof (induction es)
  case Nil
  then show ?case by simp
next
  case (Cons a es)
  then show ?case
    by (cases "file_of a") (auto simp: written_paths_def)
qed

lemmas quiet_defs = study_area_def connect_def calculate_area_def load_sentinel_def
  count_images_def check_images_def calculate_indices_def prints_def raise_def

lemma analysis_quiet:
  "written_paths (effects (exec [study_area cfg env, connect env, calculate_area env,
       load_sentinel, count_images env, check_images env, calculate_indices env] start)) = []
   \<and> Map_object (exec [study_area cfg env, connect env, calculate_area env,
       load_sentinel, count_images env, check_images env, calculate_indices env] start) = None
   \<and> status (exec [study_area cfg env, connect env, calculate_area env,
       load_sentinel, count_images env, check_images env, calculate_indices env] start) \<noteq> Finished"
  (is "?P (exec ?fs start)")
proof (rule exec_invariant [where P = ?P])
  show "?P start"
    by (simp add: start_def written_paths_Nil)
next
  fix f and t :: "'a state"
  assume "f \<in> set ?fs" and "?P t"
  then show "?P (f t)"
    by (auto simp: quiet_defs no_images_hints_def written_paths_append written_paths_Print
        written_paths_Nil split: if_splits)
qed

lemma analysis_running:
  assumes "\<not> raises env AreaInfo" "\<not> raises env PreSizeInfo" "\<not> raises env PostSizeInfo"
    "pre_count env \<noteq> 0" "post_count env \<noteq> 0"
  shows "status (exec [study_area cfg env, connect env, calculate_area env,
       load_sentinel, count_images env, check_images env, calculate_indices env] start) = Running
   \<and> severity_image (exec [study_area cfg env, connect env, calculate_area env,
       load_sentinel, count_images env, check_images env, calculate_indices env] start)
       = Some (severity (DNBR env))"
  using assms by (simp add: exec_def start_def quiet_defs)

lemma outputs_result:
  assumes "status s = Running"
  shows "exec [interactive_map cfg env, html_dashboard cfg env, finish] s =
    (if length (BBOX cfg) < 4
     then s\<lparr>effects := effects s
               @ map Print [''\<newline>'' @ rule50, ''STEP 4: Creating Interactive Map'', rule50],
            status := Uncaught IndexError\<rparr>
     else if raises env MapToHtml
     then s\<lparr>effects := effects s
               @ map Print [''\<newline>'' @ rule50, ''STEP 4: Creating Interactive Map'', rule50],
            status := Uncaught (Raised MapToHtml),
            Map_object := Some (new_Map cfg)\<rparr>
     else if raises env OpenDashboard
     then s\<lparr>effects := effects s
               @ map Print [''\<newline>'' @ rule50, ''STEP 4: Creating Interactive Map'', rule50]
               @ [SaveMap (map_path cfg) (new_Map cfg),
                  Print (''Interactive map saved: '' @ map_path cfg)]
               @ map Print [''\<newline>'' @ rule50,
                    ''STEP 7: Creating Interactive HTML Dashboard'', rule50],
            status := Uncaught (Raised OpenDashboard),
            Map_object := Some (new_Map cfg)\<rparr>
     else s\<lparr>effects := effects s
               @ map Print [''\<newline>'' @ rule50, ''STEP 4: Creating Interactive Map'', rule50]
               @ [SaveMap (map_path cfg) (new_Map cfg),
                  Print (''Interactive map saved: '' @ map_path cfg)]
               @ map Print [''\<newline>'' @ rule50,
                    ''STEP 7: Creating Interactive HTML Dashboard'', rule50]
               @ [WriteFile (dashboard_filename cfg) (dashboard_html cfg env),
                  Print (''Interactive dashboard saved: '' @ dashboard_filename cfg)],
            status := Finished,
            Map_object := Some (new_Map cfg)\<rparr>)"
  using assms
  by (simp add: exec_Cons exec_Nil interactive_map_def html_dashboard_def finish_def
      prints_def raise_def Let_def)

lemma run_split:
  "run cfg env =
     exec [interactive_map cfg env, html_dashboard cfg env, finish]
       (exec [study_area cfg env, connect env, calculate_area env, load_sentinel,
          count_images env, check_images env, calculate_indices env] start)"
  unfolding run_def script_def exec_append [symmetric] by simp

lemma run_finished:
  assumes "\<not> raises env AreaInfo" "\<not> raises env PreSizeInfo" "\<not> raises env PostSizeInfo"
    "pre_count env \<noteq> 0" "post_count env \<noteq> 0" "4 \<le> length (BBOX cfg)"
    "\<not> raises env MapToHtml" "\<not> raises env OpenDashboard"
  shows "status (run cfg env) = Finished"
    and "Map_object (run cfg env) = Some (new_Map cfg)"
    and "severity_image (run cfg env) = Some (severity (DNBR env))"
    and "WriteFile (dashboard_filename cfg) (dashboard_html cfg env) \<in> set (effects (run cfg env))"
  using assms analysis_running [OF assms(1-5), of cfg]
  by (simp_all add: run_split outputs_result)

lemma run_files:
  "(status (run cfg env) = Finished \<and>
      written_paths (effects (run cfg env)) = [map_path cfg, dashboard_filename cfg]) \<or>
   (status (run cfg env) \<noteq> Finished \<and>
      (written_paths (effects (run cfg env)) = [] \<or>
       written_paths (effects (run cfg env)) = [map_path cfg]))"
proof -
  let ?s = "exec [study_area cfg env, connect env, calculate_area env, load_sentinel,
          count_images env, check_images env, calculate_indices env] start"
  have quiet: "written_paths (effects ?s) = []" "status ?s \<noteq> Finished"
    using analysis_quiet [of cfg env] by simp_all
  show ?thesis
  proof (cases "status ?s = Running")
    case True
    show ?thesis
      unfolding run_split outputs_result [OF True]
      using quiet
      by (simp add: written_paths_append written_paths_Print written_paths_SaveMap
          written_paths_WriteFile written_paths_Nil)
  next
    case False
    then show ?thesis
      unfolding run_split using quiet by (simp add: exec_stopped)
  qed
qed

lemma run_written:
  assumes "e \<in> set (effects (run cfg env))" and "file_of e = Some path"
  shows "e = SaveMap (map_path cfg) (new_Map cfg) \<or>
         e = WriteFile (dashboard_filename cfg) (dashboard_html cfg env)"
proof -
  let ?s = "exec [study_area cfg env, connect env, calculate_area env, load_sentinel,
          count_images env, check_images env, calculate_indices env] start"
  have quiet: "written_paths (effects ?s) = []"
    using analysis_quiet [of cfg env] by simp
  have old: "e \<notin> set (effects ?s)"
    using written_paths_mem [of e "effects ?s" path] assms(2) quiet by auto
  show ?thesis
  proof (cases "status ?s = Running")
    case True
    show ?thesis
      using assms old unfolding run_split outputs_result [OF True]
      by (auto split: if_splits)
  next
    case False
    then show ?thesis
      using assms(1) old unfolding run_split by (simp add: exec_stopped)
  qed
qed

lemma run_Map:
  assumes "Map_object (run cfg env) = Some m"
  shows "m = new_Map cfg \<and> 4 \<le> length (BBOX cfg)"
proof -
  let ?s = "exec [study_area cfg env, connect env, calculate_area env, load_sentinel,
          count_images env, check_images env, calculate_indices env] start"
  have quiet: "Map_object ?s = None"
    using analysis_quiet [of cfg env] by simp
  show ?thesis
  proof (cases "status ?s = Running")
    case True
    show ?thesis
      using assms quiet unfolding run_split outputs_result [OF True]
      by (auto split: if_splits)
  next
    case False
    then show ?thesis
      using assms quiet unfolding run_split by (simp add: exec_stopped)
  qed
qed

lemma analysis_exits:
  assumes "\<not> raises env AreaInfo" "\<not> raises env PreSizeInfo" "\<not> raises env PostSizeInfo"
    and "pre_count env = 0 \<or> post_count env = 0"
  shows "exec [study_area cfg env, connect env, calculate_area env, load_sentinel,
          count_images env, check_images env, calculate_indices env] start =
     (exec [study_area cfg env, connect env, calculate_area env, load_sentinel,
          count_images env] start)
     \<lparr>effects := effects (exec [study_area cfg env, connect env, calculate_area env,
          load_sentinel, count_images env] start) @ map Print no_images_hints,
      status := Exited\<rparr>"
proof -
  let ?s = "exec [study_area cfg env, connect env, calculate_area env, load_sentinel,
          count_images env] start"
  have running: "status ?s = Running"
    using assms(1-3) by (simp add: exec_def start_def quiet_defs)
  have "exec [study_area cfg env, connect env, calculate_area env, load_sentinel,
          count_images env, check_images env, calculate_indices env] start
      = exec [check_images env, calculate_indices env] ?s"
    unfolding exec_append [symmetric] by simp
  also have "\<dots> = ?s\<lparr>effects := effects ?s @ map Print no_images_hints, status := Exited\<rparr>"
    using running assms(4) by (simp add: exec_Cons exec_Nil check_images_def prints_def)
  finally show ?thesis .
qed

lemma rest_frame:
  assumes "f \<in> set [calculate_area env, load_sentinel, count_images env, check_images env,
      calculate_indices env, interactive_map cfg env, html_dashboard cfg env, finish]"
  shows "f (t\<lparr>effects := pre @ effects t\<rparr>) = (f t)\<lparr>effects := pre @ effects (f t)\<rparr>"
  using assms
  by (auto simp: quiet_defs interactive_map_def html_dashboard_def finish_def Let_def)

lemma exec_frame:
  assumes "\<And>f t pre. f \<in> set fs \<Longrightarrow>
     f (t\<lparr>effects := pre @ effects t\<rparr>) = (f t)\<lparr>effects := pre @ effects (f t)\<rparr>"
  shows "exec fs (s\<lparr>effects := pre @ effects s\<rparr>)
     = (exec fs s)\<lparr>effects := pre @ effects (exec fs s)\<rparr>"
  using assms
proof (induction fs arbitrary: s)
  case Nil
  then show ?case by (simp add: exec_Nil)
next
  case (Cons f fs)
  have step: "f (s\<lparr>effects := pre @ effects s\<rparr>) = (f s)\<lparr>effects := pre @ effects (f s)\<rparr>"
    using Cons.prems by simp
  have rest: "\<And>t. exec fs (t\<lparr>effects := pre @ effects t\<rparr>)
     = (exec fs t)\<lparr>effects := pre @ effects (exec fs t)\<rparr>"
    using Cons.prems by (intro Cons.IH) simp
  show ?case
    by (simp add: exec_Cons step rest)
qed

lemma run_after_connect:
  fixes env :: "'p env"
  shows "run cfg env =
     (exec [calculate_area env, load_sentinel, count_images env, check_images env,
        calculate_indices env, interactive_map cfg env, html_dashboard cfg env, finish] start)
     \<lparr>effects :=
        effects (connect env (study_area cfg env start))
        @ effects (exec [calculate_area env, load_sentinel, count_images env,
            check_images env, calculate_indices env, interactive_map cfg env,
            html_dashboard cfg env, finish] start)\<rparr>"
proof -
  let ?rest = "[calculate_area env, load_sentinel, count_images env, check_images env,
        calculate_indices env, interactive_map cfg env, html_dashboard cfg env, finish]"
  let ?pre = "effects (connect env (study_area cfg env start))"
  have first: "connect env (study_area cfg env start) = start\<lparr>effects := ?pre @ effects (start :: 'p state)\<rparr>"
    by (simp add: connect_def study_area_def prints_def start_def)
  have running: "status start = Running" "status (study_area cfg env start) = Running"
    by (simp_all add: start_def study_area_def prints_def)
  have a: "run cfg env = exec ?rest (connect env (study_area cfg env start))"
    unfolding run_def script_def by (simp add: exec_Cons running)
  have b: "exec ?rest (connect env (study_area cfg env start))
      = exec ?rest (start\<lparr>effects := ?pre @ effects (start :: 'p state)\<rparr>)"
    by (rule arg_cong [OF first])
  have c: "exec ?rest (start\<lparr>effects := ?pre @ effects (start :: 'p state)\<rparr>)
      = (exec ?rest start)\<lparr>effects := ?pre @ effects (exec ?rest start)\<rparr>"
    by (rule exec_frame) (rule rest_frame)
  show ?thesis
    by (rule trans [OF a trans [OF b c]])
qed

lemma dashboard_html_ignores_raises:
  "dashboard_html cfg (env\<lparr>raises := r\<rparr>) = dashboard_html cfg env"
  by (simp add: dashboard_html_def area_sqkm_def area_ha_def)

lemma rest_ignores_connection:
  "[calculate_area (env\<lparr>raises := (raises env)(Initialize := b)\<rparr>), load_sentinel,
    count_images (env\<lparr>raises := (raises env)(Initialize := b)\<rparr>),
    check_images (env\<lparr>raises := (raises env)(Initialize := b)\<rparr>),
    calculate_indices (env\<lparr>raises := (raises env)(Initialize := b)\<rparr>),
    interactive_map cfg (env\<lparr>raises := (raises env)(Initialize := b)\<rparr>),
    html_dashboard cfg (env\<lparr>raises := (raises env)(Initialize := b)\<rparr>), finish]
   = [calculate_area env, load_sentinel, count_images env, check_images env,
      calculate_indices env, interactive_map cfg env, html_dashboard cfg env, finish]"
  by (simp add: fun_eq_iff calculate_area_def count_images_def check_images_def
      calculate_indices_def interactive_map_def html_dashboard_def Let_def
      dashboard_html_ignores_raises area_sqkm_def area_ha_def pre_count_def post_count_def
      DNBR_def prefire_nbr_def postfire_nbr_def pre_fire_image_def post_fire_image_def)

lemma sample_run_finished:
  "status (run configuration sample_env) = Finished"
  "Map_object (run configuration sample_env) = Some (new_Map configuration)"
  "WriteFile (dashboard_filename configuration) (dashboard_html configuration sample_env)
     \<in> set (effects (run configuration sample_env))"
  by (rule run_finished;
      simp add: sample_env_def pre_count_def post_count_def configuration_def)+

lemma sublist_trans:
  assumes "sublist xs ys" and "sublist ys zs"
  shows "sublist xs zs"
proof -
  obtain a b where "ys = a @ xs @ b"
    using assms(1) by (auto simp: sublist_def)
  moreover obtain c d where "zs = c @ ys @ d"
    using assms(2) by (auto simp: sublist_def)
  ultimately have "zs = (c @ a) @ xs @ (b @ d)"
    by simp
  then show ?thesis
    unfolding sublist_def by blast
qed

lemma sublist_skip: "sublist xs ys \<Longrightarrow> sublist xs (zs @ ys)"
  by (rule sublist_trans [OF _ sublist_append_leftI])

lemma sublist_here: "prefix xs ys \<Longrightarrow> sublist (a @ xs) (a @ ys)"
  by (simp add: prefix_imp_sublist)

lemma dashboard_html_title:
  \<open>sublist (''<title>Wildfire Dashboard - '' @ REGION_NAME cfg @ ''</title>'')
     (dashboard_html cfg env)\<close>
proof -
  have \<open>sublist (''    <title>Wildfire Dashboard - '' @ REGION_NAME cfg @ ''</title>\<newline>'')
     (dashboard_html cfg env)\<close>
    unfolding dashboard_html_def
    by (rule sublist_here | rule sublist_skip)+ simp
  moreover have \<open>sublist (''<title>Wildfire Dashboard - '' @ REGION_NAME cfg @ ''</title>'')
     (''    <title>Wildfire Dashboard - '' @ REGION_NAME cfg @ ''</title>\<newline>'')\<close>
    unfolding sublist_def
    by (rule exI [of _ "''    ''"], rule exI [of _ "''\<newline>''"]) simp
  ultimately show ?thesis
    by (rule sublist_trans [rotated])
qed

lemma dashboard_html_iframe:
  \<open>sublist (''<iframe id="mapFrame" src="map_'' @ REGION_NAME cfg @ ''.html"></iframe>'')
     (dashboard_html cfg env)\<close>
proof -
  have \<open>sublist (''                <iframe id="mapFrame" src="map_'' @ REGION_NAME cfg
        @ ''.html"></iframe>\<newline>'')
     (dashboard_html cfg env)\<close>
    unfolding dashboard_html_def
    by (rule sublist_here | rule sublist_skip)+ simp
  moreover have \<open>sublist
     (''<iframe id="mapFrame" src="map_'' @ REGION_NAME cfg @ ''.html"></iframe>'')
     (''                <iframe id="mapFrame" src="map_'' @ REGION_NAME cfg
        @ ''.html"></iframe>\<newline>'')\<close>
    unfolding sublist_def
    by (rule exI [of _ "''                ''"], rule exI [of _ "''\<newline>''"]) simp
  ultimately show ?thesis
    by (rule sublist_trans [rotated])
qed

lemma dashboard_html_period:
  \<open>sublist (''Analysis Period: '' @ PRE_FIRE_DATE cfg @ '' to '' @ POST_FIRE_DATE cfg)
     (dashboard_html cfg env)\<close>
proof -
  have \<open>sublist (''                    <div>Analysis Period: '' @ PRE_FIRE_DATE cfg @ '' to ''
        @ POST_FIRE_DATE cfg @ ''</div>\<newline>'')
     (dashboard_html cfg env)\<close>
    unfolding dashboard_html_def
    by (rule sublist_here | rule sublist_skip)+ simp
  moreover have \<open>sublist
     (''Analysis Period: '' @ PRE_FIRE_DATE cfg @ '' to '' @ POST_FIRE_DATE cfg)
     (''                    <div>Analysis Period: '' @ PRE_FIRE_DATE cfg @ '' to ''
        @ POST_FIRE_DATE cfg @ ''</div>\<newline>'')\<close>
    unfolding sublist_def
    by (rule exI [of _ "''                    <div>''"], rule exI [of _ "''</div>\<newline>''"]) simp
  ultimately show ?thesis
    by (rule sublist_trans [rotated])
qed

lemma severity_pixel:
  "d p = Some v \<Longrightarrow>
   severity d p =
     Some (if 0.66 < v then 4
           else if 0.439 < v \<and> v < 0.659 then 3
           else if 0.27 < v \<and> v < 0.439 then 2
           else if 0.05 < v \<and> v < 0.27 then 1
           else 0)"
  by (simp add: severity_def img_where_def img_And_def img_binary_def img_gt_def
      img_lt_def img_multiply_def)

lemma pow2_powi: "pow2 e = 2 powi e"
  by (simp add: pow2_def power_int_def inverse_eq_divide power_one_over)

lemma pow2_pos: "0 < pow2 e"
  by (simp add: pow2_powi)

lemma pow2_add: "pow2 (a + b) = pow2 a * pow2 b"
  by (simp add: pow2_powi power_int_add)

lemma pow2_1: "pow2 1 = 2" and pow2_0: "pow2 0 = 1" and pow2_m1: "pow2 (-1) = 1 / 2"
  by (simp_all add: pow2_def)

lemma pow2_succ: "pow2 (e + 1) = 2 * pow2 e"
  by (simp add: pow2_add pow2_1)

lemma pow2_pred: "pow2 (e - 1) = pow2 e / 2"
  using pow2_add [of e "-1"] by (simp add: pow2_m1)

lemma up_bounds: "1 \<le> x \<Longrightarrow> pow2 (up x) \<le> x \<and> x < pow2 (up x + 1)"
proof (induction x rule: up.induct)
  case (1 x)
  show ?case
  proof (cases "2 \<le> x")
    case True
    then have "pow2 (up (x / 2)) \<le> x / 2 \<and> x / 2 < pow2 (up (x / 2) + 1)"
      using "1.IH" by simp
    moreover have "up x = up (x / 2) + 1"
      using True by (subst up.simps) simp
    moreover have "pow2 (up (x / 2) + 1 + 1) = 2 * pow2 (up (x / 2) + 1)"
      "pow2 (up (x / 2) + 1) = 2 * pow2 (up (x / 2))"
      by (rule pow2_succ)+
    ultimately show ?thesis
      by (simp only:) linarith
  next
    case False
    then have "up x = 0"
      by (subst up.simps) simp
    then show ?thesis
      using False "1.prems" by (simp add: pow2_0 pow2_1)
  qed
qed

lemma down_bounds:
  "0 < x \<Longrightarrow> x < 2 \<Longrightarrow> -1022 \<le> e \<Longrightarrow>
   -1022 \<le> down x e \<and> x * pow2 e < pow2 (down x e + 1) \<and>
   (pow2 (down x e) \<le> x * pow2 e \<or> down x e = -1022)"
proof (induction x e rule: down.induct)
  case (1 x e)
  show ?case
  proof (cases "x < 1 \<and> -1022 < e")
    case True
    then have step: "down x e = down (2 * x) (e - 1)"
      by (subst down.simps) simp
    have "-1022 \<le> down (2 * x) (e - 1) \<and>
        2 * x * pow2 (e - 1) < pow2 (down (2 * x) (e - 1) + 1) \<and>
        (pow2 (down (2 * x) (e - 1)) \<le> 2 * x * pow2 (e - 1) \<or>
         down (2 * x) (e - 1) = -1022)"
      using True "1.prems" by (intro "1.IH") simp_all
    then show ?thesis
      by (simp add: step pow2_pred)
  next
    case False
    then have stop: "down x e = e"
      by (subst down.simps) (simp only: if_False)
    have "x * pow2 e < 2 * pow2 e"
      using "1.prems"(2) pow2_pos [of e] by simp
    moreover have "1 \<le> x \<Longrightarrow> pow2 e \<le> x * pow2 e"
      using pow2_pos [of e] by simp
    ultimately show ?thesis
      using False "1.prems"(3) by (auto simp: stop pow2_succ)
  qed
qed

lemma exponent_bounds:
  assumes "0 < x"
  shows "x < pow2 (exponent x + 1)"
    and "pow2 (exponent x) \<le> x \<or> exponent x = -1022"
proof -
  show "x < pow2 (exponent x + 1)"
  proof (cases "1 \<le> x")
    case True
    then show ?thesis
      using up_bounds [of x] by (simp add: exponent_def)
  next
    case False
    then show ?thesis
      using down_bounds [of x 0] assms by (simp add: exponent_def pow2_0)
  qed
  show "pow2 (exponent x) \<le> x \<or> exponent x = -1022"
  proof (cases "1 \<le> x")
    case True
    then show ?thesis
      using up_bounds [of x] by (simp add: exponent_def)
  next
    case False
    then show ?thesis
      using down_bounds [of x 0] assms by (simp add: exponent_def pow2_0)
  qed
qed

lemma round_half_even_error: "\<bar>of_int (round_half_even m) - m\<bar> \<le> 1 / 2"
  unfolding round_half_even_def by (auto; linarith)

lemma round_double_error: "\<bar>round_double x - x\<bar> \<le> ulp x / 2"
proof -
  have u: "0 < ulp x"
    by (simp add: ulp_def pow2_pos)
  have scaled: "\<bar>of_int (round_half_even m) * ulp x - m * ulp x\<bar> \<le> ulp x / 2" for m
  proof -
    have "\<bar>of_int (round_half_even m) * ulp x - m * ulp x\<bar>
        = \<bar>of_int (round_half_even m) - m\<bar> * ulp x"
      using u by (simp add: abs_mult left_diff_distrib [symmetric])
    also have "\<dots> \<le> 1 / 2 * ulp x"
      using round_half_even_error [of m] u by (intro mult_right_mono) simp_all
    finally show ?thesis by simp
  qed
  show ?thesis
  proof (cases "x < 0")
    case True
    have "\<bar>round_double x - x\<bar>
        = \<bar>of_int (round_half_even (- x / ulp x)) * ulp x - (- x / ulp x) * ulp x\<bar>"
      using True u by (simp add: round_double_def)
    then show ?thesis
      using scaled [of "- x / ulp x"] by simp
  next
    case False
    have "\<bar>round_double x - x\<bar>
        = \<bar>of_int (round_half_even (x / ulp x)) * ulp x - (x / ulp x) * ulp x\<bar>"
      using False u by (simp add: round_double_def)
    then show ?thesis
      using scaled [of "x / ulp x"] by simp
  qed
qed

lemma half_ulp:
  assumes "x \<noteq> 0"
  shows "ulp x / 2 \<le> \<bar>x\<bar> * pow2 (-53) + pow2 (-1075)"
proof -
  have pos: "0 < \<bar>x\<bar>"
    using assms by simp
  have split: "ulp x / 2 = pow2 (exponent \<bar>x\<bar>) * pow2 (-53)"
    using pow2_add [of "exponent \<bar>x\<bar>" "-53"] pow2_pred [of "exponent \<bar>x\<bar> - 52"]
    by (simp add: ulp_def)
  from exponent_bounds(2) [OF pos] show ?thesis
  proof
    assume "pow2 (exponent \<bar>x\<bar>) \<le> \<bar>x\<bar>"
    then have "pow2 (exponent \<bar>x\<bar>) * pow2 (-53) \<le> \<bar>x\<bar> * pow2 (-53)"
      using pow2_pos [of "-53"] by (intro mult_right_mono) simp_all
    then show ?thesis
      using pow2_pos [of "-1075"] by (simp add: split)
  next
    assume "exponent \<bar>x\<bar> = -1022"
    then have "ulp x / 2 = pow2 (-1075)"
      using pow2_add [of "-1022" "-53"] by (simp add: split)
    moreover have "0 \<le> \<bar>x\<bar> * pow2 (-53)"
      using pow2_pos [of "-53"] by simp
    ultimately show ?thesis
      by linarith
  qed
qed

lemma round_double_near: "\<bar>round_double x - x\<bar> \<le> \<bar>x\<bar> * pow2 (-53) + pow2 (-1075)"
proof (cases "x = 0")
  case True
  have "round_double 0 = 0"
    by (simp add: round_double_def round_half_even_def)
  then show ?thesis
    using True pow2_pos [of "-1075"] by simp
next
  case False
  then show ?thesis
    using round_double_error [of x] half_ulp [of x] by linarith
qed

lemma area_figures_near:
  "\<bar>float_div a 10000 - float_div a 1000000 * 100\<bar>
     \<le> \<bar>a\<bar> / 10000 * pow2 (-52) + 101 * pow2 (-1075)"
proof -
  have h: "\<bar>float_div a 10000 - a / 10000\<bar> \<le> \<bar>a / 10000\<bar> * pow2 (-53) + pow2 (-1075)"
    unfolding float_div_def by (rule round_double_near)
  have k: "\<bar>float_div a 1000000 - a / 1000000\<bar> \<le> \<bar>a / 1000000\<bar> * pow2 (-53) + pow2 (-1075)"
    unfolding float_div_def by (rule round_double_near)
  have half: "pow2 (-52) = 2 * pow2 (-53)"
    using pow2_succ [of "-53"] by simp
  have "\<bar>float_div a 10000 - float_div a 1000000 * 100\<bar>
      \<le> \<bar>float_div a 10000 - a / 10000\<bar> + 100 * \<bar>float_div a 1000000 - a / 1000000\<bar>"
    by (simp add: abs_if) 
  also have "\<dots> \<le> (\<bar>a / 10000\<bar> * pow2 (-53) + pow2 (-1075))
      + 100 * (\<bar>a / 1000000\<bar> * pow2 (-53) + pow2 (-1075))"
    by (intro add_mono mult_left_mono h k) simp
  also have "\<dots> = \<bar>a\<bar> / 10000 * pow2 (-52) + 101 * pow2 (-1075)"
    by (simp add: half)
  finally show ?thesis .
qed

lemmas float_eval = float_div_def float_mul_def round_double_def ulp_def exponent_def
  up.simps down.simps round_half_even_def pow2_def

lemma rounded_areas:
  "round_double (6212743782 / 10) = 2605813609581773 / 4194304"
  "float_div (2605813609581773 / 4194304) 10000 = 4269365017938777 / 68719476736"
  "float_div (2605813609581773 / 4194304) 1000000 = 2732393611480817 / 4398046511104"
  "float_mul (2732393611480817 / 4398046511104) 100 = 8538730035877553 / 137438953472"
  by (simp_all add: float_eval)

lemma sample_area_figures:
  "area_ha (sample_env\<lparr>area_sqm := 2605813609581773 / 4194304\<rparr>)
     = 4269365017938777 / 68719476736"
  "area_sqkm (sample_env\<lparr>area_sqm := 2605813609581773 / 4194304\<rparr>)
     = 2732393611480817 / 4398046511104"
proof -
  have area: "area_sqm (sample_env\<lparr>area_sqm := 2605813609581773 / 4194304\<rparr>)
      = 2605813609581773 / 4194304"
    by simp
  show "area_ha (sample_env\<lparr>area_sqm := 2605813609581773 / 4194304\<rparr>)
     = 4269365017938777 / 68719476736"
    unfolding area_ha_def area by (rule rounded_areas)
  show "area_sqkm (sample_env\<lparr>area_sqm := 2605813609581773 / 4194304\<rparr>)
     = 2732393611480817 / 4398046511104"
    unfolding area_sqkm_def area by (rule rounded_areas)
qed

lemma sample_medians:
  "samples (prefire_images sample_env) ''B8'' 0 = [3000, 3400, 2800]"
  "samples (prefire_images sample_env) ''B12'' 0 = [1000, 1200, 1100]"
  "samples (postfire_images sample_env) ''B8'' 0 = [1500, 1700]"
  "samples (postfire_images sample_env) ''B12'' 0 = [2500, 2300]"
  "median [3000, 3400, 2800] = 3000"
  "median [1000, 1200, 1100] = 1100"
  "median [1500, 1700] = 1600"
  "median [2500, 2300] = 2400"
  by (simp_all add: sample_env_def samples_def scene_def median_def)

section \<open>The properties of the specification\<close>

text \<open>
  C1. A pixel whose dNBR value lies in one of the stated open intervals gets the matching
  class: 0 below 0.05, 1 between 0.05 and 0.27, 2 between 0.27 and 0.439, 3 between 0.439
  and 0.659, and 4 above 0.66. The thresholds are read as exact decimals.
\<close>

theorem severity_open_intervals:
  "d p = Some v \<Longrightarrow>
   (v < 0.05 \<longrightarrow> severity d p = Some 0) \<and>
   (0.05 < v \<and> v < 0.27 \<longrightarrow> severity d p = Some 1) \<and>
   (0.27 < v \<and> v < 0.439 \<longrightarrow> severity d p = Some 2) \<and>
   (0.439 < v \<and> v < 0.659 \<longrightarrow> severity d p = Some 3) \<and>
   (0.66 < v \<longrightarrow> severity d p = Some 4)"
  by (simp add: severity_pixel)

text \<open>C1 at five pixels, one in each interval.\<close>

theorem severity_open_intervals_witness:
  "severity (map_of [(0::nat, 0.01), (1, 0.1), (2, 0.3), (3, 0.5), (4, 0.7)]) 0 = Some 0 \<and>
   severity (map_of [(0::nat, 0.01), (1, 0.1), (2, 0.3), (3, 0.5), (4, 0.7)]) 1 = Some 1 \<and>
   severity (map_of [(0::nat, 0.01), (1, 0.1), (2, 0.3), (3, 0.5), (4, 0.7)]) 2 = Some 2 \<and>
   severity (map_of [(0::nat, 0.01), (1, 0.1), (2, 0.3), (3, 0.5), (4, 0.7)]) 3 = Some 3 \<and>
   severity (map_of [(0::nat, 0.01), (1, 0.1), (2, 0.3), (3, 0.5), (4, 0.7)]) 4 = Some 4"
  using
    severity_open_intervals [of "map_of [(0::nat, 0.01), (1, 0.1), (2, 0.3), (3, 0.5), (4, 0.7)]" 0 "0.01"]
    severity_open_intervals [of "map_of [(0::nat, 0.01), (1, 0.1), (2, 0.3), (3, 0.5), (4, 0.7)]" 1 "0.1"]
    severity_open_intervals [of "map_of [(0::nat, 0.01), (1, 0.1), (2, 0.3), (3, 0.5), (4, 0.7)]" 2 "0.3"]
    severity_open_intervals [of "map_of [(0::nat, 0.01), (1, 0.1), (2, 0.3), (3, 0.5), (4, 0.7)]" 3 "0.5"]
    severity_open_intervals [of "map_of [(0::nat, 0.01), (1, 0.1), (2, 0.3), (3, 0.5), (4, 0.7)]" 4 "0.7"]
  by simp

text \<open>
  C2, as the code has it. At a dNBR value exactly on a boundary (0.05, 0.27, 0.439) or in
  the closed gap from 0.659 to 0.66, none of the four conditions of the \<open>where\<close> chain holds
  (each test is 0 there), so the pixel keeps the value 0 of the base raster
  \<open>dnbr.lt(0.05).multiply(0)\<close>: the classification reports class 0, it does not leave the
  pixel without a class.
\<close>

theorem severity_boundaries_keep_base:
  "d p = Some v \<Longrightarrow>
   v = 0.05 \<or> v = 0.27 \<or> v = 0.439 \<or> (0.659 \<le> v \<and> v \<le> 0.66) \<Longrightarrow>
   img_And (img_gt d 0.05) (img_lt d 0.27) p = Some 0 \<and>
   img_And (img_gt d 0.27) (img_lt d 0.439) p = Some 0 \<and>
   img_And (img_gt d 0.439) (img_lt d 0.659) p = Some 0 \<and>
   img_gt d 0.66 p = Some 0 \<and>
   img_multiply (img_lt d 0.05) 0 p = Some 0 \<and>
   severity d p = Some 0"
  by (auto simp: severity_pixel img_And_def img_binary_def img_gt_def img_lt_def
      img_multiply_def)

text \<open>C2 at the boundary value 0.439.\<close>

theorem severity_boundaries_keep_base_witness:
  "severity (map_of [(7::nat, 0.439)]) 7 = Some 0"
  using severity_boundaries_keep_base [of "map_of [(7::nat, 0.439)]" 7 "0.439"]
  by simp

text \<open>
  C2, as the specification states it, says that such a pixel is left unclassified. In the
  model a pixel without a class is a masked pixel, \<open>None\<close>. A raster holding the boundary
  value 0.05 at pixel 0 and the gap value 0.6595 at pixel 1 gets the class 0 at both.
\<close>

theorem boundary_pixel_gets_class_0:
  "severity (map_of [(0::nat, 0.05), (1, 0.6595)]) 0 = Some 0 \<and>
   severity (map_of [(0::nat, 0.05), (1, 0.6595)]) 1 = Some 0"
  by (simp add: severity_def img_where_def img_And_def img_binary_def img_gt_def
      img_lt_def img_multiply_def)

text \<open>
  C3. When the three queries before the check return and one of the two collections is
  empty, the script prints the four hints last and exits: the \<open>severity\<close> image was never
  built, no map was created, and no file was written.
\<close>

theorem no_images_halts:
  assumes "\<not> raises env AreaInfo" and "\<not> raises env PreSizeInfo"
    and "\<not> raises env PostSizeInfo"
    and "pre_count env = 0 \<or> post_count env = 0"
  shows "status (run cfg env) = Exited \<and>
         suffix (map Print no_images_hints) (effects (run cfg env)) \<and>
         severity_image (run cfg env) = None \<and>
         Map_object (run cfg env) = None \<and>
         written_paths (effects (run cfg env)) = []"
proof -
  let ?s = "exec [study_area cfg env, connect env, calculate_area env, load_sentinel,
          count_images env, check_images env, calculate_indices env] start"
  let ?t = "exec [study_area cfg env, connect env, calculate_area env, load_sentinel,
          count_images env] start"
  have s: "?s = ?t\<lparr>effects := effects ?t @ map Print no_images_hints, status := Exited\<rparr>"
    using assms by (rule analysis_exits)
  have "status ?s = Exited"
    by (subst s) simp
  then have run: "run cfg env = ?s"
    unfolding run_split by (simp add: exec_stopped)
  have "effects ?s = effects ?t @ map Print no_images_hints"
    by (subst s) simp
  then have hints: "suffix (map Print no_images_hints) (effects ?s)"
    by (rule suffixI)
  have "severity_image ?t = None"
    using assms(1-3) by (simp add: exec_def start_def quiet_defs)
  then have sev: "severity_image ?s = None"
    by (subst s) simp
  show ?thesis
    unfolding run using \<open>status ?s = Exited\<close> hints sev analysis_quiet [of cfg env]
    by simp
qed

text \<open>C3 in the sample environment with no post-fire image.\<close>

theorem no_images_halts_witness:
  "status (run configuration (sample_env\<lparr>postfire_images := []\<rparr>)) = Exited \<and>
   written_paths (effects (run configuration (sample_env\<lparr>postfire_images := []\<rparr>))) = []"
  using no_images_halts [of "sample_env\<lparr>postfire_images := []\<rparr>" configuration]
  by (simp add: sample_env_def post_count_def)

text \<open>
  C4, as the code has it. Whatever area the service reports for the rectangle, the figure
  in square kilometres is the area divided by 1000000 and the figure in hectares the area
  divided by 10000, each rounded to the nearest double. The exact quotients differ by the
  factor 100; the two figures do so up to the rounding of the two divisions: the hectares
  differ from 100 times the square kilometres by at most \<open>2^-52\<close> of the area in hectares
  (and \<open>101 * 2^-1075\<close> for the subnormal range).
\<close>

theorem hectares_near_100_sqkm:
  "area_sqkm env = float_div (area_sqm env) 1000000 \<and>
   area_ha env = float_div (area_sqm env) 10000 \<and>
   area_sqm env / 10000 = area_sqm env / 1000000 * 100 \<and>
   \<bar>area_ha env - area_sqkm env * 100\<bar>
     \<le> \<bar>area_sqm env\<bar> / 10000 * pow2 (-52) + 101 * pow2 (-1075)"
proof (intro conjI)
  show "area_sqkm env = float_div (area_sqm env) 1000000"
    by (rule area_sqkm_def)
  show "area_ha env = float_div (area_sqm env) 10000"
    by (rule area_ha_def)
  show "area_sqm env / 10000 = area_sqm env / 1000000 * 100"
    by simp
  show "\<bar>area_ha env - area_sqkm env * 100\<bar>
     \<le> \<bar>area_sqm env\<bar> / 10000 * pow2 (-52) + 101 * pow2 (-1075)"
    unfolding area_sqkm_def area_ha_def by (rule area_figures_near)
qed

text \<open>C4 for the area 621274378.2, the figures being 62127.43782000001 and 621.2743782.\<close>

theorem hectares_near_100_sqkm_witness:
  "\<bar>4269365017938777 / 68719476736 - 2732393611480817 / 4398046511104 * 100\<bar>
     \<le> \<bar>2605813609581773 / 4194304\<bar> / 10000 * pow2 (-52) + 101 * pow2 (-1075)"
proof -
  have area: "area_sqm (sample_env\<lparr>area_sqm := 2605813609581773 / 4194304\<rparr>)
      = 2605813609581773 / 4194304"
    by simp
  have "\<bar>area_ha (sample_env\<lparr>area_sqm := 2605813609581773 / 4194304\<rparr>)
        - area_sqkm (sample_env\<lparr>area_sqm := 2605813609581773 / 4194304\<rparr>) * 100\<bar>
     \<le> \<bar>area_sqm (sample_env\<lparr>area_sqm := 2605813609581773 / 4194304\<rparr>)\<bar> / 10000
          * pow2 (-52) + 101 * pow2 (-1075)"
    using hectares_near_100_sqkm [of "sample_env\<lparr>area_sqm := 2605813609581773 / 4194304\<rparr>"]
    by (elim conjE)
  then show ?thesis
    unfolding sample_area_figures area .
qed

text \<open>
  C4, as the specification states it, says that the hectares equal the square kilometres
  times 100. For the area 621274378.2, the double \<open>2605813609581773 / 2^22\<close>, the script has
  62127.43782000001 hectares and 621.2743782 square kilometres, whose product with 100 is
  not the hectares, neither exactly nor rounded to a double (62127.43782).
\<close>

theorem hectares_differ_from_100_sqkm:
  "round_double (6212743782 / 10) = 2605813609581773 / 4194304 \<and>
   area_ha (sample_env\<lparr>area_sqm := 2605813609581773 / 4194304\<rparr>)
     = 4269365017938777 / 68719476736 \<and>
   area_sqkm (sample_env\<lparr>area_sqm := 2605813609581773 / 4194304\<rparr>)
     = 2732393611480817 / 4398046511104 \<and>
   float_mul (area_sqkm (sample_env\<lparr>area_sqm := 2605813609581773 / 4194304\<rparr>)) 100
     = 8538730035877553 / 137438953472 \<and>
   area_ha (sample_env\<lparr>area_sqm := 2605813609581773 / 4194304\<rparr>)
     \<noteq> area_sqkm (sample_env\<lparr>area_sqm := 2605813609581773 / 4194304\<rparr>) * 100 \<and>
   area_ha (sample_env\<lparr>area_sqm := 2605813609581773 / 4194304\<rparr>)
     \<noteq> float_mul (area_sqkm (sample_env\<lparr>area_sqm := 2605813609581773 / 4194304\<rparr>)) 100"
proof -
  have differ:
    "(4269365017938777 / 68719476736 :: real) \<noteq> 2732393611480817 / 4398046511104 * 100"
    "(4269365017938777 / 68719476736 :: real) \<noteq> 8538730035877553 / 137438953472"
    by simp_all
  show ?thesis
    unfolding sample_area_figures rounded_areas
    using differ by (intro conjI refl)
qed

text \<open>
  C5. When \<open>ee.Initialize\<close> raises, the script prints the two lines of the handler, the
  second telling the user to authenticate again, and goes on: everything after the
  connection step, what is printed and written, how the run ends, the image and the map it
  builds, is what the same run does after a successful connection. Whether the later
  calls to the service then raise is the environment's choice, in both runs alike.
\<close>

theorem connection_failure_not_fatal:
  fixes env :: "'p env"
  assumes "raises env Initialize"
  shows "\<exists>rest.
     effects (run cfg env) =
       effects (study_area cfg env (start :: 'p state))
       @ [Print ''Google Earth Engine connection failed'',
          Print ''Run: earthengine authenticate''] @ rest \<and>
     effects (run cfg (env\<lparr>raises := (raises env)(Initialize := False)\<rparr>)) =
       effects (study_area cfg env (start :: 'p state))
       @ [Print ''Google Earth Engine connected Successfully''] @ rest \<and>
     status (run cfg env)
       = status (run cfg (env\<lparr>raises := (raises env)(Initialize := False)\<rparr>)) \<and>
     severity_image (run cfg env)
       = severity_image (run cfg (env\<lparr>raises := (raises env)(Initialize := False)\<rparr>)) \<and>
     Map_object (run cfg env)
       = Map_object (run cfg (env\<lparr>raises := (raises env)(Initialize := False)\<rparr>))"
proof -
  let ?ok = "env\<lparr>raises := (raises env)(Initialize := False)\<rparr>"
  let ?rest = "[calculate_area env, load_sentinel, count_images env, check_images env,
      calculate_indices env, interactive_map cfg env, html_dashboard cfg env, finish]"
  let ?r = "exec ?rest (start :: 'p state)"
  have failed: "run cfg env =
      ?r\<lparr>effects := effects (connect env (study_area cfg env start)) @ effects ?r\<rparr>"
    by (rule run_after_connect)
  have ok: "run cfg ?ok =
      ?r\<lparr>effects := effects (connect ?ok (study_area cfg ?ok start)) @ effects ?r\<rparr>"
    using run_after_connect [of cfg ?ok] unfolding rest_ignores_connection .
  have e1: "effects (connect env (study_area cfg env (start :: 'p state)))
      = effects (study_area cfg env (start :: 'p state))
        @ [Print ''Google Earth Engine connection failed'',
           Print ''Run: earthengine authenticate'']"
    using assms by (simp add: connect_def prints_def)
  have e2: "effects (connect ?ok (study_area cfg ?ok (start :: 'p state)))
      = effects (study_area cfg env (start :: 'p state))
        @ [Print ''Google Earth Engine connected Successfully'']"
    by (simp add: connect_def prints_def study_area_def)
  show ?thesis
    by (rule exI [of _ "effects ?r"]) (simp add: failed ok e1 e2)
qed

text \<open>C5 in the sample environment, only the connection failing: the run reaches its end.\<close>

theorem connection_failure_not_fatal_witness:
  "raises (sample_env\<lparr>raises := (\<lambda>c. c = Initialize)\<rparr>) Initialize \<and>
   status (run configuration (sample_env\<lparr>raises := (\<lambda>c. c = Initialize)\<rparr>)) = Finished"
proof -
  have same: "(\<lambda>c. c = Initialize)(Initialize := False) = (\<lambda>c. False)"
    by (simp add: fun_eq_iff)
  have ok: "sample_env\<lparr>raises := (\<lambda>c. False)\<rparr> = sample_env"
    by (simp add: sample_env_def)
  have "status (run configuration (sample_env\<lparr>raises := (\<lambda>c. c = Initialize)\<rparr>))
      = status (run configuration sample_env)"
    using connection_failure_not_fatal
      [of "sample_env\<lparr>raises := (\<lambda>c. c = Initialize)\<rparr>" configuration]
    by (auto simp: same ok)
  then show ?thesis
    by (simp add: sample_run_finished)
qed

text \<open>
  C6. Whenever a run writes a file with \<open>open\<close>, it is the dashboard, and its text holds
  the region name inside the title element and inside the source path of the inline
  frame, and the two dates of the analysis period.
\<close>

theorem dashboard_embeds_region_and_dates:
  assumes \<open>WriteFile path html \<in> set (effects (run cfg env))\<close>
  shows \<open>sublist (''<title>Wildfire Dashboard - '' @ REGION_NAME cfg @ ''</title>'') html \<and>
     sublist (''<iframe id="mapFrame" src="map_'' @ REGION_NAME cfg @ ''.html"></iframe>'') html \<and>
     sublist (''Analysis Period: '' @ PRE_FIRE_DATE cfg @ '' to '' @ POST_FIRE_DATE cfg) html \<and>
     sublist (REGION_NAME cfg) html \<and>
     sublist (PRE_FIRE_DATE cfg) html \<and> sublist (POST_FIRE_DATE cfg) html \<and>
     path = dashboard_filename cfg\<close>
proof -
  have written: "html = dashboard_html cfg env" "path = dashboard_filename cfg"
    using run_written [OF assms, of path] by simp_all
  have region: "sublist (REGION_NAME cfg) (dashboard_html cfg env)"
    by (rule sublist_trans [OF _ dashboard_html_title])
      (rule sublist_appendI)
  have pre: "sublist (PRE_FIRE_DATE cfg) (dashboard_html cfg env)"
    by (rule sublist_trans [OF _ dashboard_html_period])
      (rule sublist_appendI)
  have post: "sublist (POST_FIRE_DATE cfg) (dashboard_html cfg env)"
    by (rule sublist_trans [OF _ dashboard_html_period])
      ((rule sublist_skip)+, simp)
  show ?thesis
    unfolding written
    by (intro conjI dashboard_html_title dashboard_html_iframe dashboard_html_period
        region pre post refl)
qed

text \<open>C6 for the configuration of the script in the sample environment.\<close>

theorem dashboard_embeds_region_and_dates_witness:
  \<open>sublist ''<title>Wildfire Dashboard - Camarillo</title>''
     (dashboard_html configuration sample_env) \<and>
   sublist ''<iframe id="mapFrame" src="map_Camarillo.html"></iframe>''
     (dashboard_html configuration sample_env) \<and>
   sublist ''Analysis Period: 2024-11-06 to 2024-12-31''
     (dashboard_html configuration sample_env)\<close>
  using dashboard_embeds_region_and_dates [OF sample_run_finished(3)]
  by (simp add: configuration_def)

text \<open>
  C7. At a pixel of the rectangle where both collections have data in the bands B8 (NIR)
  and B12 (SWIR), and where neither denominator is zero, the dNBR image holds
  \<open>NBR_pre - NBR_post\<close>, each NBR being \<open>(NIR - SWIR) / (NIR + SWIR)\<close> of the per-pixel medians
  of the images of its collection.
\<close>

theorem dnbr_of_median_composites:
  assumes "region_of_interest env p"
    and "samples (prefire_images env) ''B8'' p \<noteq> []"
    and "samples (prefire_images env) ''B12'' p \<noteq> []"
    and "samples (postfire_images env) ''B8'' p \<noteq> []"
    and "samples (postfire_images env) ''B12'' p \<noteq> []"
    and "median (samples (prefire_images env) ''B8'' p)
           + median (samples (prefire_images env) ''B12'' p) \<noteq> 0"
    and "median (samples (postfire_images env) ''B8'' p)
           + median (samples (postfire_images env) ''B12'' p) \<noteq> 0"
  shows "DNBR env p =
     Some (dNBR_spec
       (NBR_spec (median (samples (prefire_images env) ''B8'' p))
                 (median (samples (prefire_images env) ''B12'' p)))
       (NBR_spec (median (samples (postfire_images env) ''B8'' p))
                 (median (samples (postfire_images env) ''B12'' p))))"
  using assms
  by (simp add: DNBR_def dnbr_def prefire_nbr_def postfire_nbr_def nbr_def
      pre_fire_image_def post_fire_image_def composite_def img_clip_def img_median_def
      img_select_def img_divide_def img_subtract_def img_add_def img_binary_def
      NBR_spec_def dNBR_spec_def)

text \<open>C7 at pixel 0 of the sample environment.\<close>

theorem dnbr_of_median_composites_witness:
  "DNBR sample_env 0 = Some (136 / 205)"
  using dnbr_of_median_composites [of sample_env 0]
  by (simp add: sample_medians NBR_spec_def dNBR_spec_def) (simp add: sample_env_def)

text \<open>
  C8. The files a run writes are, in this order, \<open>outputs/map_<region>.html\<close> and
  \<open>outputs/wildfire_dashboard_<region>.html\<close>, each named relative to the working directory
  with the prefix \<open>./\<close>; a run that reaches its end has written exactly these two, and no
  run writes any other file.
\<close>

theorem output_files_paths:
  "prefix (written_paths (effects (run cfg env)))
     [''./'' @ ''outputs/map_'' @ REGION_NAME cfg @ ''.html'',
      ''./'' @ ''outputs/wildfire_dashboard_'' @ REGION_NAME cfg @ ''.html''] \<and>
   (status (run cfg env) = Finished \<longrightarrow>
      written_paths (effects (run cfg env)) =
        [''./'' @ ''outputs/map_'' @ REGION_NAME cfg @ ''.html'',
         ''./'' @ ''outputs/wildfire_dashboard_'' @ REGION_NAME cfg @ ''.html''])"
  using run_files [of cfg env]
  by (auto simp: map_path_def dashboard_filename_def)

text \<open>C8 for the configuration of the script in the sample environment.\<close>

theorem output_files_paths_witness:
  "status (run configuration sample_env) = Finished \<and>
   written_paths (effects (run configuration sample_env)) =
     [''./outputs/map_Camarillo.html'', ''./outputs/wildfire_dashboard_Camarillo.html'']"
  using output_files_paths [of configuration sample_env] sample_run_finished(1)
  by (simp add: configuration_def)

text \<open>
  C9. Whenever the map has been created, its centre is the midpoint of the bounding box:
  latitude \<open>(BBOX[1] + BBOX[3]) / 2\<close> and longitude \<open>(BBOX[0] + BBOX[2]) / 2\<close>, the list
  having the four entries read.
\<close>

theorem map_centred_at_bbox_midpoint:
  assumes "Map_object (run cfg env) = Some m"
  shows "center m = ((BBOX cfg ! 1 + BBOX cfg ! 3) / 2, (BBOX cfg ! 0 + BBOX cfg ! 2) / 2) \<and>
         4 \<le> length (BBOX cfg)"
  using run_Map [OF assms] by (simp add: new_Map_def center_lat_def center_lon_def)

text \<open>C9 for the bounding box of the script.\<close>

theorem map_centred_at_bbox_midpoint_witness:
  "Map_object (run configuration sample_env) = Some (new_Map configuration) \<and>
   center (new_Map configuration) = (34.3, -119)"
  using map_centred_at_bbox_midpoint [OF sample_run_finished(2)] sample_run_finished(2)
  by (simp add: configuration_def)

text \<open>
  C10. Every pixel that has a dNBR value, the boundary values and the gap included, gets
  one of the classes 0, 1, 2, 3, 4.
\<close>

theorem severity_is_a_class:
  "d p = Some v \<Longrightarrow> severity d p \<in> {Some 0, Some 1, Some 2, Some 3, Some 4}"
  by (simp add: severity_pixel)

text \<open>C10 at the gap value 0.6595.\<close>

theorem severity_is_a_class_witness:
  "severity (map_of [(3::nat, 0.6595)]) 3 \<in> {Some 0, Some 1, Some 2, Some 3, Some 4}"
  using severity_is_a_class [of "map_of [(3::nat, 0.6595)]" 3 "0.6595"]
  by simp

end
